theory Spec2Isabelle
  imports Main "HOL-Library.Word" "HOL-Library.Signed_Division" "HOL-Library.AList"
begin

unbundle bit_operations_syntax

section \<open>utils.go: display names\<close>

text \<open>
  Go's \<open>int64\<close> is a 64-bit two's-complement word: \<open>+\<close>, \<open>-\<close> and \<open><<\<close> wrap, and
  comparisons read it signed. A \<open>rune\<close> is an \<open>int32\<close>; \<open>for _, c := range s\<close> walks the
  code points of the string, so a seed is modelled as the list of its runes.
\<close>

type_synonym int64 = "64 word"
type_synonym rune = "32 word"

definition colors :: "string list" where
  "colors = [''Red'', ''Blue'', ''Green'', ''Yellow'', ''Purple'', ''Orange'', ''Pink'']"

definition animals :: "string list" where
  "animals = [''Dog'', ''Cat'', ''Elephant'', ''Lion'', ''Tiger'', ''Bear'', ''Penguin'']"

text \<open>The loop of \<open>hashString\<close>, with the running \<open>hash\<close> as accumulator.\<close>

fun hashLoop :: "int64 \<Rightarrow> rune list \<Rightarrow> int64" where
  "hashLoop hash [] = hash"
| "hashLoop hash (c # s) =
     hashLoop (((push_bit 5 hash - hash) + scast c) AND 0x7FFFFFFFFFFFFFFF) s"

definition hashString :: "rune list \<Rightarrow> int64" where
  "hashString s = hashLoop 0 s"

definition abs64 :: "int64 \<Rightarrow> int64" where
  "abs64 x = (if x <s 0 then - x else x)"

text \<open>
  Go's \<open>%\<close> on signed integers truncates towards zero: the remainder has the sign of the
  dividend. The divisor is a non-zero slice length wherever the program uses it.
\<close>

definition rem64 :: "int64 \<Rightarrow> int64 \<Rightarrow> int64" where
  "rem64 a b = word_of_int (sint a smod sint b)"

text \<open>Indexing a slice with an \<open>int64\<close>; \<open>None\<close> is the run-time panic of an index out of range.\<close>

definition index64 :: "'a list \<Rightarrow> int64 \<Rightarrow> 'a option" where
  "index64 xs i =
     (if 0 \<le> sint i \<and> nat (sint i) < length xs then Some (xs ! nat (sint i)) else None)"

definition colorIndex :: "rune list \<Rightarrow> int64" where
  "colorIndex seed = rem64 (abs64 (hashString seed)) (word_of_nat (length colors))"

definition animalIndex :: "rune list \<Rightarrow> int64" where
  "animalIndex seed = rem64 (abs64 (hashString seed)) (word_of_nat (length animals))"

definition generateDisplayName :: "rune list \<Rightarrow> string option" where
  "generateDisplayName seed =
     (case index64 colors (colorIndex seed) of
        None \<Rightarrow> None
      | Some c \<Rightarrow>
          (case index64 animals (animalIndex seed) of
             None \<Rightarrow> None
           | Some a \<Rightarrow> Some (c @ '' '' @ a)))"

definition displayNames :: "string list" where
  "displayNames = [''Red Dog'', ''Blue Cat'', ''Green Elephant'', ''Yellow Lion'',
                   ''Purple Tiger'', ''Orange Bear'', ''Pink Penguin'']"

section \<open>main.go: peers, rooms and the signalling server\<close>

text \<open>
  A decoded JSON document. Numbers are \<open>float64\<close> in Go; the server never looks at one,
  so their type is a parameter. A \<open>map[string]interface{}\<close> is an association list read
  through \<open>map_of\<close>, written through \<open>AList.update\<close> and \<open>AList.delete\<close>.
\<close>

datatype 'n json =
    JNull
  | JBool bool
  | JNumber 'n
  | JString string
  | JArray "'n json list"
  | JObject "(string \<times> 'n json) list"

type_synonym 'n msg = "(string \<times> 'n json) list"

text \<open>
  A \<open>*websocket.Conn\<close> is identified by a number. Times and durations are integers
  counting nanoseconds. \<open>TimerID\<close> holds the due time of the pending \<open>time.AfterFunc\<close>
  timer of the peer, \<open>None\<close> being the nil pointer.
\<close>

type_synonym conn = nat
type_synonym time = int

record PeerName =
  Model :: string
  OS :: string
  Browser :: string
  Type :: string
  DeviceName :: string
  DisplayName :: string

record Peer =
  ID :: string
  IP :: string
  Socket :: conn
  RTCSupported :: bool
  Name :: PeerName
  LastBeat :: time
  TimerID :: "time option"

text \<open>
  A room is a Go map from peer id to peer, held as an association list whose order is
  the order in which \<open>range\<close> visits it (Go leaves that order open). The room map stores
  pointers; through a room entry the program reads only \<open>ID\<close>, \<open>Name\<close>, \<open>RTCSupported\<close>
  and \<open>Socket\<close>, which nothing writes after the peer has joined, so the entry is held by
  value.

  The server state carries, next to \<open>rooms\<close> and the \<open>done\<close> channel (\<open>done_closed\<close>: closed or not),
  the effects on the connections: every \<open>WriteJSON\<close> call and every \<open>Close\<close> call, in
  order.
\<close>

type_synonym room = "(string \<times> Peer) list"

record 'n SnapdropServer =
  rooms :: "string \<rightharpoonup> room"
  done_closed :: bool
  written :: "(conn \<times> 'n msg) list"
  closed :: "conn list"

definition newServer :: "'n SnapdropServer" where
  "newServer = \<lparr>rooms = Map.empty, done_closed = False, written = [], closed = []\<rparr>"

text \<open>\<open>s.rooms[ip]\<close>: a missing key reads as the nil map, which has no entries.\<close>

definition room_of :: "'n SnapdropServer \<Rightarrow> string \<Rightarrow> room" where
  "room_of s ip = (case rooms s ip of None \<Rightarrow> [] | Some r \<Rightarrow> r)"

text \<open>
  \<open>send\<close>: peers are built by \<open>handleWebSocket\<close> with a connection, so the nil guards
  never fire; a failed write is only logged.
\<close>

definition send :: "'n SnapdropServer \<Rightarrow> Peer \<Rightarrow> 'n msg \<Rightarrow> 'n SnapdropServer" where
  "send s peer message = s\<lparr>written := written s @ [(Socket peer, message)]\<rparr>"

definition getInfo :: "Peer \<Rightarrow> 'n msg" where
  "getInfo p =
     [(''id'', JString (ID p)),
      (''name'', JObject
         [(''model'', JString (Model (Name p))),
          (''os'', JString (OS (Name p))),
          (''browser'', JString (Browser (Name p))),
          (''type'', JString (Type (Name p))),
          (''deviceName'', JString (DeviceName (Name p))),
          (''displayName'', JString (DisplayName (Name p)))]),
      (''rtcSupported'', JBool (RTCSupported p))]"

definition peerJoined :: "Peer \<Rightarrow> 'n msg" where
  "peerJoined peer = [(''type'', JString ''peer-joined''), (''peer'', JObject (getInfo peer))]"

definition peersSnapshot :: "room \<Rightarrow> 'n msg" where
  "peersSnapshot r =
     [(''type'', JString ''peers''),
      (''peers'', JArray (map (\<lambda>(k, otherPeer). JObject (getInfo otherPeer)) r))]"

definition peerLeft :: "Peer \<Rightarrow> 'n msg" where
  "peerLeft peer = [(''type'', JString ''peer-left''), (''peerId'', JString (ID peer))]"

definition ping :: "'n msg" where
  "ping = [(''type'', JString ''ping'')]"

text \<open>\<open>for _, otherPeer := range room { s.send(otherPeer, message) }\<close>\<close>

definition broadcast :: "'n SnapdropServer \<Rightarrow> room \<Rightarrow> 'n msg \<Rightarrow> 'n SnapdropServer" where
  "broadcast s r message = fold (\<lambda>(k, otherPeer) st. send st otherPeer message) r s"

definition joinRoom :: "'n SnapdropServer \<Rightarrow> Peer \<Rightarrow> 'n SnapdropServer" where
  "joinRoom s peer =
     (let s1 = (if rooms s (IP peer) = None
                then s\<lparr>rooms := (rooms s)(IP peer \<mapsto> [])\<rparr> else s);
          s2 = broadcast s1 (room_of s1 (IP peer)) (peerJoined peer);
          s3 = send s2 peer (peersSnapshot (room_of s2 (IP peer)))
      in s3\<lparr>rooms := (rooms s3)(IP peer \<mapsto> AList.update (ID peer) peer (room_of s3 (IP peer)))\<rparr>)"

definition cancelKeepAlive :: "Peer \<Rightarrow> Peer" where
  "cancelKeepAlive peer = (if TimerID peer \<noteq> None then peer\<lparr>TimerID := None\<rparr> else peer)"

text \<open>\<open>leaveRoom\<close> returns the state and the peer object, whose timer it clears.\<close>

definition leaveRoom :: "'n SnapdropServer \<Rightarrow> Peer \<Rightarrow> 'n SnapdropServer \<times> Peer" where
  "leaveRoom s peer =
     (if rooms s (IP peer) = None \<or> map_of (room_of s (IP peer)) (ID peer) = None
      then (s, peer)
      else
        (let peer1 = cancelKeepAlive peer;
             s1 = s\<lparr>rooms := (rooms s)(IP peer \<mapsto> AList.delete (ID peer) (room_of s (IP peer)))\<rparr>;
             s2 = s1\<lparr>closed := closed s1 @ [Socket peer]\<rparr>
         in if length (room_of s2 (IP peer)) = 0
            then (s2\<lparr>rooms := (rooms s2)(IP peer := None)\<rparr>, peer1)
            else (broadcast s2 (room_of s2 (IP peer)) (peerLeft peer), peer1)))"

definition timeout :: time where
  "timeout = 30 * 1000000000"

text \<open>
  One firing of \<open>keepAlive\<close> at time \<open>now\<close>. \<open>time.Since\<close> is the difference of two
  clock readings.
\<close>

definition keepAlive :: "time \<Rightarrow> 'n SnapdropServer \<Rightarrow> Peer \<Rightarrow> 'n SnapdropServer \<times> Peer" where
  "keepAlive now s peer =
     (let peer1 = cancelKeepAlive peer
      in if now - LastBeat peer1 > 2 * timeout
         then leaveRoom s peer1
         else (send s peer1 ping, peer1\<lparr>TimerID := Some (now + timeout)\<rparr>))"

definition handleRelayMessage :: "'n SnapdropServer \<Rightarrow> Peer \<Rightarrow> 'n msg \<Rightarrow> 'n SnapdropServer" where
  "handleRelayMessage s peer m =
     (case map_of m ''to'' of
        Some (JString to) \<Rightarrow>
          (case map_of (room_of s (IP peer)) to of
             None \<Rightarrow> s
           | Some recipient \<Rightarrow>
               send s recipient
                 (AList.update ''sender'' (JString (ID peer)) (AList.delete ''to'' m)))
      | _ \<Rightarrow> s)"

text \<open>
  What \<open>ReadMessage\<close> returns: an error, or a frame with its message type and body.
  \<open>json.Unmarshal\<close> into a \<open>map[string]interface{}\<close> is a parameter \<open>unmarshal\<close>, \<open>None\<close>
  being its error.
\<close>

datatype read = ReadError | Frame int string

definition TextMessage :: int where
  "TextMessage = 1"

datatype outcome = Continue | Return

text \<open>One iteration of the loop of \<open>handleMessages\<close>, reading \<open>rd\<close> at time \<open>now\<close>.\<close>

definition handleFrame ::
  "(string \<Rightarrow> 'n msg option) \<Rightarrow> time \<Rightarrow> 'n SnapdropServer \<Rightarrow> Peer \<Rightarrow> read
     \<Rightarrow> ('n SnapdropServer \<times> Peer) \<times> outcome" where
  "handleFrame unmarshal now s peer rd =
     (if done_closed s then ((s, peer), Return)
      else
        (case rd of
           ReadError \<Rightarrow> ((s, peer), Return)
         | Frame messageType message \<Rightarrow>
             if messageType \<noteq> TextMessage then ((s, peer), Continue)
             else
               (case unmarshal message of
                  None \<Rightarrow> ((s, peer), Continue)
                | Some m \<Rightarrow>
                    (case map_of m ''type'' of
                       Some (JString msgType) \<Rightarrow>
                         if msgType = ''disconnect'' then ((s, peer), Return)
                         else if msgType = ''pong''
                         then ((s, peer\<lparr>LastBeat := now\<rparr>), Continue)
                         else ((handleRelayMessage s peer m, peer), Continue)
                     | _ \<Rightarrow> ((s, peer), Continue)))))"

text \<open>
  The loop over the frames that arrive, each with the time at which it is handled. With
  no frame left the loop is blocked in \<open>ReadMessage\<close> (\<open>Continue\<close>).
\<close>

fun receiveLoop ::
  "(string \<Rightarrow> 'n msg option) \<Rightarrow> 'n SnapdropServer \<Rightarrow> Peer \<Rightarrow> (time \<times> read) list
     \<Rightarrow> ('n SnapdropServer \<times> Peer) \<times> outcome" where
  "receiveLoop unmarshal s peer [] = ((s, peer), if done_closed s then Return else Continue)"
| "receiveLoop unmarshal s peer ((now, rd) # rest) =
     (case handleFrame unmarshal now s peer rd of
        ((s1, peer1), Return) \<Rightarrow> ((s1, peer1), Return)
      | ((s1, peer1), Continue) \<Rightarrow> receiveLoop unmarshal s1 peer1 rest)"

text \<open>\<open>handleMessages\<close>: the deferred \<open>leaveRoom\<close> runs when the loop returns.\<close>

definition handleMessages ::
  "(string \<Rightarrow> 'n msg option) \<Rightarrow> 'n SnapdropServer \<Rightarrow> Peer \<Rightarrow> (time \<times> read) list
     \<Rightarrow> ('n SnapdropServer \<times> Peer) \<times> outcome" where
  "handleMessages unmarshal s peer frames =
     (case receiveLoop unmarshal s peer frames of
        ((s1, peer1), Return) \<Rightarrow> (leaveRoom s1 peer1, Return)
      | ((s1, peer1), Continue) \<Rightarrow> ((s1, peer1), Continue))"

subsection \<open>Sequences of joins and leaves\<close>

datatype op = Join Peer | Leave Peer

fun step :: "'n SnapdropServer \<Rightarrow> op \<Rightarrow> 'n SnapdropServer" where
  "step s (Join p) = joinRoom s p"
| "step s (Leave p) = fst (leaveRoom s p)"

definition run :: "'n SnapdropServer \<Rightarrow> op list \<Rightarrow> 'n SnapdropServer" where
  "run s ops = foldl step s ops"

text \<open>
  What \<open>handleWebSocket\<close> guarantees about the peers it hands to the registry: each peer
  is built once, with a newly generated id and its own connection, and is joined once;
  \<open>leaveRoom\<close> is only called for a peer that was joined. \<open>ident\<close> is the part of a peer
  that never changes.
\<close>

definition ident :: "Peer \<Rightarrow> string \<times> string \<times> conn" where
  "ident p = (ID p, IP p, Socket p)"

fun lifecycle :: "Peer list \<Rightarrow> op list \<Rightarrow> bool" where
  "lifecycle seen [] = True"
| "lifecycle seen (Join p # ops) =
     (ID p \<notin> ID ` set seen \<and> Socket p \<notin> Socket ` set seen \<and> lifecycle (p # seen) ops)"
| "lifecycle seen (Leave p # ops) = (ident p \<in> ident ` set seen \<and> lifecycle seen ops)"

text \<open>The (locality, id) pairs that have joined and not yet left.\<close>

fun present_step :: "(string \<times> string) set \<Rightarrow> op \<Rightarrow> (string \<times> string) set" where
  "present_step A (Join p) = insert (IP p, ID p) A"
| "present_step A (Leave p) = A - {(IP p, ID p)}"

definition present :: "op list \<Rightarrow> (string \<times> string) set" where
  "present ops = foldl present_step {} ops"

text \<open>
  The registry invariant, relative to the peers \<open>seen\<close> so far: no room is empty, a room
  has one entry per id, an entry is filed under its own id in the room of its own
  locality and its connection is open, ids and connections identify a peer, and no
  connection was closed twice.
\<close>

definition registry_inv :: "'n SnapdropServer \<Rightarrow> Peer list \<Rightarrow> bool" where
  "registry_inv s seen \<longleftrightarrow>
     (\<forall>ip. rooms s ip \<noteq> Some [])
     \<and> (\<forall>ip. distinct (map fst (room_of s ip)))
     \<and> (\<forall>ip. \<forall>e \<in> set (room_of s ip).
            ID (snd e) = fst e \<and> IP (snd e) = ip
            \<and> ident (snd e) \<in> ident ` set seen \<and> Socket (snd e) \<notin> set (closed s))
     \<and> (\<forall>p \<in> set seen. \<forall>q \<in> set seen.
            ID p = ID q \<or> Socket p = Socket q \<longrightarrow> ident p = ident q)
     \<and> set (closed s) \<subseteq> Socket ` set seen
     \<and> distinct (closed s)"

subsection \<open>Reading the effects\<close>

text \<open>The frames written between an earlier state and a later one, and those to one connection.\<close>

definition written_since :: "'n SnapdropServer \<Rightarrow> 'n SnapdropServer \<Rightarrow> (conn \<times> 'n msg) list" where
  "written_since s s' = drop (length (written s)) (written s')"

definition frames_to :: "conn \<Rightarrow> (conn \<times> 'n msg) list \<Rightarrow> 'n msg list" where
  "frames_to c ws = map snd (filter (\<lambda>w. fst w = c) ws)"

text \<open>The payload that \<open>handleRelayMessage\<close> hands to \<open>send\<close>.\<close>

definition relayed :: "Peer \<Rightarrow> 'n msg \<Rightarrow> 'n msg" where
  "relayed peer m = AList.update ''sender'' (JString (ID peer)) (AList.delete ''to'' m)"

subsection \<open>The scenario of the specification\<close>

text \<open>Peers A and B of locality 10.0.0.5 and a peer C of another locality.\<close>

definition noName :: PeerName where
  "noName = \<lparr>Model = [], OS = [], Browser = [], Type = [], DeviceName = ''Unknown Device'',
             DisplayName = ''Red Dog''\<rparr>"

definition peerA :: Peer where
  "peerA = \<lparr>ID = ''a'', IP = ''10.0.0.5'', Socket = 1, RTCSupported = True, Name = noName,
            LastBeat = 0, TimerID = None\<rparr>"

definition peerB :: Peer where
  "peerB = \<lparr>ID = ''b'', IP = ''10.0.0.5'', Socket = 2, RTCSupported = True, Name = noName,
            LastBeat = 0, TimerID = None\<rparr>"

definition peerC :: Peer where
  "peerC = \<lparr>ID = ''c'', IP = ''10.0.0.9'', Socket = 3, RTCSupported = False, Name = noName,
            LastBeat = 0, TimerID = None\<rparr>"

definition offer :: "nat msg" where
  "offer = [(''type'', JString ''offer''), (''to'', JString ''b''), (''sdp'', JString ''v=0'')]"

text \<open>A decoder that knows five documents, standing in for \<open>json.Unmarshal\<close>.\<close>

definition decode :: "string \<Rightarrow> nat msg option" where
  "decode body =
     (if body = ''offer'' then Some offer
      else if body = ''pong'' then Some [(''type'', JString ''pong'')]
      else if body = ''disconnect'' then Some [(''type'', JString ''disconnect'')]
      else if body = ''untyped'' then Some [(''to'', JString ''b'')]
      else if body = ''unaddressed'' then Some [(''type'', JString ''offer'')]
      else None)"

section \<open>Properties of the display names\<close>

lemma mask63: "(0x7FFFFFFFFFFFFFFF :: int64) = mask 63"
  by (simp add: mask_eq_exp_minus_1)

lemma sint_nonneg_iff: "0 \<le> sint (w :: int64) \<longleftrightarrow> \<not> bit w 63"
  by (simp add: sint_uint bit_uint_iff)

lemma and_mask_nonneg: "0 \<le> sint ((w :: int64) AND 0x7FFFFFFFFFFFFFFF)"
  unfolding mask63 sint_nonneg_iff
  by (simp add: bit_and_iff bit_mask_iff)

lemma hashLoop_nonneg: "0 \<le> sint h \<Longrightarrow> 0 \<le> sint (hashLoop h s)"
proof (induction s arbitrary: h)
  case Nil
  then show ?case by simp
next
  case (Cons c s)
  show ?case
    unfolding hashLoop.simps by (rule Cons.IH) (rule and_mask_nonneg)
qed

lemma hashString_nonneg: "0 \<le> sint (hashString s)"
  unfolding hashString_def by (rule hashLoop_nonneg) simp

lemma abs64_id: "0 \<le> sint x \<Longrightarrow> abs64 x = x"
  by (simp add: abs64_def word_sless_alt)

lemma smod_nonneg: "0 \<le> (k::int) \<Longrightarrow> k smod 7 = k mod 7"
  by (simp add: smod_int_alt_def sgn_if)

lemma rem64_7: "0 \<le> sint x \<Longrightarrow> rem64 x 7 = word_of_int (sint x mod 7)"
  by (simp add: rem64_def smod_nonneg)

lemma sint_rem64_7:
  assumes "0 \<le> sint x"
  shows "sint (rem64 x 7) = sint x mod 7"
proof -
  have b: "0 \<le> sint x mod 7" "sint x mod 7 < 7" by simp_all
  have "sint (word_of_int (sint x mod 7) :: int64) = sint x mod 7"
    using b by (simp add: signed_of_int signed_take_bit_int_eq_self)
  then show ?thesis using assms by (simp add: rem64_7)
qed

lemma colorIndex_eq: "sint (colorIndex seed) = sint (hashString seed) mod 7"
  by (simp add: colorIndex_def colors_def abs64_id hashString_nonneg sint_rem64_7)

lemma animalIndex_eq: "sint (animalIndex seed) = sint (hashString seed) mod 7"
  by (simp add: animalIndex_def animals_def abs64_id hashString_nonneg sint_rem64_7)

lemma nat_below_seven:
  assumes "(n::nat) < 7"
  shows "n = 0 \<or> n = 1 \<or> n = 2 \<or> n = 3 \<or> n = 4 \<or> n = 5 \<or> n = 6"
  using assms by arith

lemma displayName_of_index:
  assumes c: "sint (colorIndex seed) = int n" and a: "sint (animalIndex seed) = int n"
    and n: "n < 7"
  shows "generateDisplayName seed = Some (displayNames ! n)"
proof -
  have "index64 colors (colorIndex seed) = Some (colors ! n)"
    using c n by (simp add: index64_def colors_def)
  moreover have "index64 animals (animalIndex seed) = Some (animals ! n)"
    using a n by (simp add: index64_def animals_def)
  moreover have "colors ! n @ '' '' @ animals ! n = displayNames ! n"
    using nat_below_seven [OF n]
    by (auto simp: colors_def animals_def displayNames_def)
  ultimately show ?thesis by (simp add: generateDisplayName_def)
qed

text \<open>
  C10. \<open>generateDisplayName\<close> is a function of its seed alone, and for every seed it
  returns (without an index panic) one of the seven names Red Dog, Blue Cat, Green Elephant,
  Yellow Lion, Purple Tiger, Orange Bear, Pink Penguin: the colour index and the animal
  index are the same number below 7, both lists having 7 entries. \<open>hashString\<close> is never
  negative, so \<open>abs\<close> returns its argument unchanged.
\<close>

theorem generateDisplayName_seven_names:
  "generateDisplayName seed \<in> Some ` set displayNames
   \<and> length displayNames = 7 \<and> distinct displayNames
   \<and> length colors = 7 \<and> length animals = 7
   \<and> colorIndex seed = animalIndex seed
   \<and> generateDisplayName seed
       = Some (displayNames ! nat (sint (colorIndex seed)))
   \<and> 0 \<le> sint (colorIndex seed) \<and> sint (colorIndex seed) < 7
   \<and> 0 \<le> sint (hashString seed)
   \<and> abs64 (hashString seed) = hashString seed"
proof -
  define n where "n = nat (sint (hashString seed) mod 7)"
  have n: "n < 7" by (simp add: n_def)
  have c: "sint (colorIndex seed) = int n"
    by (simp add: colorIndex_eq n_def)
  have a: "sint (animalIndex seed) = int n"
    by (simp add: animalIndex_eq n_def)
  have g: "generateDisplayName seed = Some (displayNames ! n)"
    by (rule displayName_of_index [OF c a n])
  have len: "length displayNames = 7"
    by (simp add: displayNames_def)
  have mem: "generateDisplayName seed \<in> Some ` set displayNames"
    unfolding g using n len by (intro imageI nth_mem) simp
  have same: "colorIndex seed = animalIndex seed"
    by (simp add: colorIndex_def animalIndex_def colors_def animals_def)
  have d: "distinct displayNames"
    by (simp add: displayNames_def)
  show ?thesis
    using mem len d same g c n hashString_nonneg [of seed]
    by (simp add: colors_def animals_def abs64_id)
qed

section \<open>The operations as state updates\<close>

lemma broadcast_eq:
  "broadcast s r m = s\<lparr>written := written s @ map (\<lambda>(k, q). (Socket q, m)) r\<rparr>"
  unfolding broadcast_def
  by (induction r arbitrary: s) (auto simp: send_def)

lemma room_of_upd [simp]:
  "room_of (s\<lparr>rooms := (rooms s)(ip \<mapsto> r)\<rparr>) ip' = (if ip' = ip then r else room_of s ip')"
  by (simp add: room_of_def)

lemma room_of_written [simp]: "room_of (s\<lparr>written := w\<rparr>) ip = room_of s ip"
  by (simp add: room_of_def)

lemma room_of_closed [simp]: "room_of (s\<lparr>closed := w\<rparr>) ip = room_of s ip"
  by (simp add: room_of_def)

lemma room_of_None: "rooms s ip = None \<Longrightarrow> room_of s ip = []"
  by (simp add: room_of_def)

lemma room_of_Some: "rooms s ip = Some r \<Longrightarrow> room_of s ip = r"
  by (simp add: room_of_def)

lemma joinRoom_eq:
  "joinRoom s p =
     s\<lparr>rooms := (rooms s)(IP p \<mapsto> AList.update (ID p) p (room_of s (IP p))),
       written := written s @ map (\<lambda>(k, q). (Socket q, peerJoined p)) (room_of s (IP p))
                  @ [(Socket p, peersSnapshot (room_of s (IP p)))]\<rparr>"
  by (cases "rooms s (IP p)")
     (simp_all add: joinRoom_def Let_def broadcast_eq send_def room_of_None room_of_Some)

lemma leaveRoom_absent:
  "map_of (room_of s (IP p)) (ID p) = None \<Longrightarrow> leaveRoom s p = (s, p)"
  by (simp add: leaveRoom_def)

lemma leaveRoom_present:
  assumes "map_of (room_of s (IP p)) (ID p) = Some q"
  shows "leaveRoom s p =
     (let r' = AList.delete (ID p) (room_of s (IP p)) in
      (s\<lparr>rooms := (rooms s)(IP p := if r' = [] then None else Some r'),
         closed := closed s @ [Socket p],
         written := written s @ map (\<lambda>(k, q). (Socket q, peerLeft p)) r'\<rparr>,
       cancelKeepAlive p))"
proof -
  have "rooms s (IP p) \<noteq> None"
    using assms by (auto simp: room_of_def split: option.splits)
  then show ?thesis
    using assms by (auto simp: leaveRoom_def Let_def broadcast_eq)
qed

end
